theory Spec2Isabelle
  imports Main "HOL-Library.Multiset"
begin

section \<open>Data model\<close>

text \<open>
  The enumeration \<^verbatim>\<open>SimulationNodeType\<close> is declared in
  \<^verbatim>\<open>components/node/base/enums\<close>; its members are the ones the canvas and the
  topology helper name.
\<close>

datatype SimulationNodeType =
    CLASSICAL_HOST
  | CLASSICAL_ROUTER
  | QUANTUM_HOST
  | QUANTUM_REPEATER
  | QUANTUM_ADAPTER
  | INTERNET_EXCHANGE
  | CLASSIC_TO_QUANTUM_CONVERTER
  | QUANTUM_TO_CLASSIC_CONVERTER
  | ZONE
  | CLASSICAL_NETWORK

text \<open>
  A \<^verbatim>\<open>SimulatorNode\<close> is an object: \<open>node_ref\<close> is its identity (what
  \<^verbatim>\<open>===\<close> compares), \<open>nodeType\<close> its type tag.
\<close>

record SimulatorNode =
  node_ref :: nat
  nodeType :: SimulationNodeType

text \<open>
  The \<^verbatim>\<open>metaData\<close> of a connection: \<^verbatim>\<open>from\<close> is always a node, \<^verbatim>\<open>to\<close>
  may be undefined (the code reads it through \<^verbatim>\<open>to?.nodeType\<close>).
\<close>

record Connection =
  metaData_from :: SimulatorNode
  metaData_to :: "SimulatorNode option"

text \<open>
  The connection manager is read through \<^verbatim>\<open>getAllConnections()\<close> only, so it is the
  list that call returns.
\<close>

type_synonym ConnectionManager = "Connection list"

section \<open>Compatibility rule engine (topologyHelper.ts)\<close>

text \<open>
  \<^verbatim>\<open>getNeighbors\<close>: one pass over the connections; a connection whose \<^verbatim>\<open>from\<close> is
  the node pushes its \<^verbatim>\<open>to\<close> (when defined), and one whose \<^verbatim>\<open>to\<close> is the node
  pushes its \<^verbatim>\<open>from\<close>. A self-loop pushes the node twice.
\<close>

fun getNeighbors :: "SimulatorNode \<Rightarrow> ConnectionManager \<Rightarrow> SimulatorNode list" where
  "getNeighbors node [] = []"
| "getNeighbors node (c # cs) =
     (case metaData_to c of
        None \<Rightarrow> []
      | Some t \<Rightarrow>
          (if node_ref (metaData_from c) = node_ref node then [t] else []) @
          (if node_ref t = node_ref node then [metaData_from c] else []))
     @ getNeighbors node cs"

definition isClassicalType :: "SimulationNodeType \<Rightarrow> bool" where
  "isClassicalType t \<longleftrightarrow> t = CLASSICAL_HOST \<or> t = CLASSICAL_ROUTER"

definition isQuantumLinkType :: "SimulationNodeType \<Rightarrow> bool" where
  "isQuantumLinkType t \<longleftrightarrow> t = QUANTUM_HOST \<or> t = QUANTUM_REPEATER"

definition getCompatibleNextNodeTypes ::
  "SimulatorNode \<Rightarrow> ConnectionManager \<Rightarrow> SimulationNodeType list" where
  "getCompatibleNextNodeTypes node connectionManager =
     (let neighbors = getNeighbors node connectionManager;
          degree = length neighbors;
          neighborTypes = map nodeType neighbors
      in case nodeType node of
           CLASSICAL_HOST \<Rightarrow> [CLASSICAL_HOST, CLASSICAL_ROUTER, QUANTUM_ADAPTER]
         | CLASSICAL_ROUTER \<Rightarrow> [CLASSICAL_HOST, CLASSICAL_ROUTER, QUANTUM_ADAPTER]
         | QUANTUM_ADAPTER \<Rightarrow>
             if degree \<ge> 2 then []
             else
               let hasClassical = list_ex isClassicalType neighborTypes;
                   hasQuantum = (QUANTUM_HOST \<in> set neighborTypes)
               in if hasClassical \<and> \<not> hasQuantum then [QUANTUM_HOST]
                  else if hasQuantum \<and> \<not> hasClassical
                    then [CLASSICAL_HOST, CLASSICAL_ROUTER]
                  else [CLASSICAL_HOST, CLASSICAL_ROUTER, QUANTUM_HOST]
         | QUANTUM_HOST \<Rightarrow>
             if degree \<ge> 2 then []
             else
               let hasAdapter = (QUANTUM_ADAPTER \<in> set neighborTypes);
                   hasQuantumLink = list_ex isQuantumLinkType neighborTypes
               in if hasAdapter \<and> \<not> hasQuantumLink then [QUANTUM_HOST, QUANTUM_REPEATER]
                  else if hasQuantumLink \<and> \<not> hasAdapter then [QUANTUM_ADAPTER]
                  else [QUANTUM_ADAPTER, QUANTUM_HOST, QUANTUM_REPEATER]
         | QUANTUM_REPEATER \<Rightarrow>
             if degree \<ge> 2 then [] else [QUANTUM_HOST, QUANTUM_REPEATER]
         | _ \<Rightarrow> [])"

section \<open>Lab requirement checker (lab panel, checkLabCompletion)\<close>

text \<open>
  The requirements of an exercise, as \<^verbatim>\<open>checkLabCompletion\<close> reads them: the node
  types wanted, the pairs of endpoint types wanted, and the optional minimum number of
  messages (a count, so a natural number; \<open>None\<close> is the absent field). The exercise table itself lives in a file
  that is not part of the sources, so it is a parameter below.
\<close>

record Requirements =
  nodes :: "SimulationNodeType list"
  connections :: "(SimulationNodeType \<times> SimulationNodeType) list"
  messages :: "nat option"

record Exercise =
  exercise_id :: string
  requirements :: Requirements

text \<open>
  \<^verbatim>\<open>acc[node.nodeType] = (acc[node.nodeType] || 0) + 1\<close>: one step of the
  \<^verbatim>\<open>reduce\<close> that counts the nodes of each type, starting from the empty object.
\<close>

definition countNode ::
  "(SimulationNodeType \<rightharpoonup> nat) \<Rightarrow> SimulatorNode \<Rightarrow> (SimulationNodeType \<rightharpoonup> nat)" where
  "countNode acc node =
     acc(nodeType node \<mapsto> (case acc (nodeType node) of None \<Rightarrow> 0 | Some n \<Rightarrow> n) + 1)"

definition nodeCounts :: "SimulatorNode list \<Rightarrow> (SimulationNodeType \<rightharpoonup> nat)" where
  "nodeCounts allNodes = foldl countNode Map.empty allNodes"

text \<open>
  The truth value JavaScript gives a looked-up count: a missing key (undefined) and the
  count 0 are false.
\<close>

definition truthyCount :: "nat option \<Rightarrow> bool" where
  "truthyCount v = (case v of None \<Rightarrow> False | Some n \<Rightarrow> n \<noteq> 0)"

text \<open>
  \<^verbatim>\<open>requirements.nodes.every(...)\<close> with its callback: a required type whose count is
  truthy decrements the count and goes on; the first one whose count is not stops the
  loop with \<open>False\<close>. The counts are mutated, so they are returned with the answer.
\<close>

fun nodesEvery ::
  "(SimulationNodeType \<rightharpoonup> nat) \<Rightarrow> SimulationNodeType list \<Rightarrow>
   bool \<times> (SimulationNodeType \<rightharpoonup> nat)" where
  "nodesEvery counts [] = (True, counts)"
| "nodesEvery counts (reqNodeType # rest) =
     (if truthyCount (counts reqNodeType)
      then nodesEvery (counts(reqNodeType \<mapsto> the (counts reqNodeType) - 1)) rest
      else (False, counts))"

definition nodesExist :: "SimulationNodeType list \<Rightarrow> SimulatorNode list \<Rightarrow> bool" where
  "nodesExist reqNodes allNodes = fst (nodesEvery (nodeCounts allNodes) reqNodes)"

text \<open>
  The number a table of counts holds for a type, a missing key read as 0 (used to state
  and prove the results, not by the checker).
\<close>

definition countOf :: "(SimulationNodeType \<rightharpoonup> nat) \<Rightarrow> SimulationNodeType \<Rightarrow> nat" where
  "countOf counts t = (case counts t of None \<Rightarrow> 0 | Some n \<Rightarrow> n)"

text \<open>
  The callback of \<^verbatim>\<open>getAllConnections().some(...)\<close>: the connection's endpoint types
  are source and target, in this order or the other. An undefined \<^verbatim>\<open>to\<close> has the
  type undefined, which equals no required type.
\<close>

definition connectionMatches ::
  "SimulationNodeType \<Rightarrow> SimulationNodeType \<Rightarrow> Connection \<Rightarrow> bool" where
  "connectionMatches source target connection \<longleftrightarrow>
     nodeType (metaData_from connection) = source \<and>
       map_option nodeType (metaData_to connection) = Some target \<or>
     map_option nodeType (metaData_to connection) = Some source \<and>
       nodeType (metaData_from connection) = target"

definition connectionsExist ::
  "(SimulationNodeType \<times> SimulationNodeType) list \<Rightarrow> Connection list \<Rightarrow> bool" where
  "connectionsExist reqConnections allConnections =
     list_all (\<lambda>(source, target). list_ex (connectionMatches source target) allConnections)
       reqConnections"

text \<open>
  \<^verbatim>\<open>requirements.messages\<close> as a condition: the field is present and not 0.
\<close>

definition messagesRequired :: "nat option \<Rightarrow> bool" where
  "messagesRequired m = (case m of None \<Rightarrow> False | Some k \<Rightarrow> k \<noteq> 0)"

text \<open>
  \<^verbatim>\<open>!requirements.messages || socket.simulationEventLogs.length >= requirements.messages\<close>
\<close>

definition messagesSent :: "nat option \<Rightarrow> 'e list \<Rightarrow> bool" where
  "messagesSent m simulationEventLogs =
     (case m of None \<Rightarrow> True | Some k \<Rightarrow> k = 0 \<or> length simulationEventLogs \<ge> k)"

text \<open>
  What one call of \<^verbatim>\<open>checkLabCompletion\<close> does: the boolean it returns, the messages
  it passes to \<^verbatim>\<open>logger.error\<close>, and the arguments (fulfilled, total) of its call of
  \<^verbatim>\<open>updateLabProgress\<close>, if it makes one.
\<close>

record CheckResult =
  returned :: bool
  errorLog :: "string list"
  labProgress :: "(nat \<times> nat) option"

text \<open>
  \<^verbatim>\<open>checkLabCompletion(labId)\<close>. Its collaborators are parameters: the exercise
  table, the outcome of the call \<^verbatim>\<open>exportToJSON()\<close>, the nodes of the node manager, the
  connections of the connection manager and the event log of the socket.

  The call \<^verbatim>\<open>exportToJSON()\<close> reads the topology from the export service. It either
  returns, \<open>Inr v\<close> with \<open>v = None\<close> for a null (or otherwise falsy) export, or it
  throws, \<open>Inl x\<close> with the thrown value \<open>x\<close>. The checker has no
  \<^verbatim>\<open>try\<close>/\<^verbatim>\<open>catch\<close>: what the call throws leaves \<^verbatim>\<open>checkLabCompletion\<close>
  uncaught, which is the result \<open>Inl x\<close>; a normal return of the checker is \<open>Inr\<close>
  of what it did. The call is made only once the lab is found.
\<close>

definition checkLabCompletion ::
  "Exercise list \<Rightarrow> 'x + 'n option \<Rightarrow> SimulatorNode list \<Rightarrow> Connection list \<Rightarrow> 'e list \<Rightarrow>
   string \<Rightarrow> 'x + CheckResult" where
  "checkLabCompletion EXERCISES exportToJSON allNodes allConnections simulationEventLogs labId =
     (case find (\<lambda>l. exercise_id l = labId) EXERCISES of
        None \<Rightarrow> Inr \<lparr>returned = False, errorLog = [], labProgress = None\<rparr>
      | Some lab \<Rightarrow>
          (case exportToJSON of
             Inl thrown \<Rightarrow> Inl thrown
           | Inr None \<Rightarrow>
               Inr \<lparr>returned = False, errorLog = [''No network found.''],
                    labProgress = None\<rparr>
           | Inr (Some currentNetwork) \<Rightarrow>
               let reqs = requirements lab;
                   nodesOk = nodesExist (nodes reqs) allNodes;
                   connectionsOk = connectionsExist (connections reqs) allConnections;
                   messagesOk = messagesSent (messages reqs) simulationEventLogs;
                   totalRequirements =
                     length (nodes reqs) + length (connections reqs) +
                     (if messagesRequired (messages reqs) then 1 else 0);
                   fulfilledRequirements =
                     (if nodesOk then length (nodes reqs) else 0) +
                     (if connectionsOk then length (connections reqs) else 0) +
                     (if messagesRequired (messages reqs) \<and> messagesOk then 1 else 0)
               in Inr \<lparr>returned = nodesOk \<and> connectionsOk \<and> messagesOk,
                       errorLog = [],
                       labProgress = Some (fulfilledRequirements, totalRequirements)\<rparr>))"

section \<open>Example topologies\<close>

text \<open>
  The scenario of the specification: an adapter A linked to a classical host H, then also
  to a quantum host Q; and a classical host with two links.
\<close>

definition hostH :: SimulatorNode where
  "hostH = \<lparr>node_ref = 1, nodeType = CLASSICAL_HOST\<rparr>"

definition adapterA :: SimulatorNode where
  "adapterA = \<lparr>node_ref = 2, nodeType = QUANTUM_ADAPTER\<rparr>"

definition quantumQ :: SimulatorNode where
  "quantumQ = \<lparr>node_ref = 3, nodeType = QUANTUM_HOST\<rparr>"

definition routerR :: SimulatorNode where
  "routerR = \<lparr>node_ref = 4, nodeType = CLASSICAL_ROUTER\<rparr>"

definition link :: "SimulatorNode \<Rightarrow> SimulatorNode \<Rightarrow> Connection" where
  "link a b = \<lparr>metaData_from = a, metaData_to = Some b\<rparr>"

definition scenarioBefore :: ConnectionManager where
  "scenarioBefore = [link adapterA hostH]"

definition scenarioAfter :: ConnectionManager where
  "scenarioAfter = [link adapterA hostH, link adapterA quantumQ]"

definition hostWithTwoLinks :: ConnectionManager where
  "hostWithTwoLinks = [link hostH routerR, link adapterA hostH]"

text \<open>
  An exercise that asks for a classical host and an adapter, twice for a link between
  the two, and for three messages.
\<close>

definition labOne :: Exercise where
  "labOne =
     \<lparr>exercise_id = ''lab-1'',
      requirements =
        \<lparr>nodes = [CLASSICAL_HOST, QUANTUM_ADAPTER],
         connections = [(CLASSICAL_HOST, QUANTUM_ADAPTER), (CLASSICAL_HOST, QUANTUM_ADAPTER)],
         messages = Some 3\<rparr>\<rparr>"

lemmas example_defs =
  hostH_def adapterA_def quantumQ_def routerR_def link_def
  scenarioBefore_def scenarioAfter_def hostWithTwoLinks_def

section \<open>Rule engine: results\<close>

lemma neighborTypes_ex:
  "list_ex P (map nodeType ns) \<longleftrightarrow> (\<exists>n\<in>set ns. P (nodeType n))"
  by (simp add: list_ex_iff)

text \<open>
  C1. A Quantum Adapter with fewer than two neighbours is offered exactly Quantum Host when
  some neighbour is a Classical Host or Router and none is a Quantum Host; exactly
  Classical Host and Classical Router when some neighbour is a Quantum Host and none is
  classical; and Classical Host, Classical Router and Quantum Host otherwise. With two or
  more neighbours it is offered nothing.
\<close>

theorem adapter_offers_missing_side:
  assumes "nodeType node = QUANTUM_ADAPTER"
  shows "getCompatibleNextNodeTypes node cm =
    (let ns = getNeighbors node cm;
         someClassical =
           (\<exists>n\<in>set ns. nodeType n = CLASSICAL_HOST \<or> nodeType n = CLASSICAL_ROUTER);
         someQuantumHost = (\<exists>n\<in>set ns. nodeType n = QUANTUM_HOST)
     in if length ns \<ge> 2 then []
        else if someClassical \<and> \<not> someQuantumHost then [QUANTUM_HOST]
        else if someQuantumHost \<and> \<not> someClassical then [CLASSICAL_HOST, CLASSICAL_ROUTER]
        else [CLASSICAL_HOST, CLASSICAL_ROUTER, QUANTUM_HOST])"
proof -
  have q: "QUANTUM_HOST \<in> set (map nodeType ns) \<longleftrightarrow> (\<exists>n\<in>set ns. nodeType n = QUANTUM_HOST)"
    for ns :: "SimulatorNode list"
    by force
  show ?thesis
    unfolding getCompatibleNextNodeTypes_def Let_def q neighborTypes_ex isClassicalType_def
    using assms by simp
qed

theorem adapter_offers_missing_side_witness:
  "nodeType adapterA = QUANTUM_ADAPTER \<and>
   getCompatibleNextNodeTypes adapterA scenarioBefore = [QUANTUM_HOST] \<and>
   getCompatibleNextNodeTypes adapterA scenarioAfter = [] \<and>
   getCompatibleNextNodeTypes adapterA [link adapterA quantumQ] =
     [CLASSICAL_HOST, CLASSICAL_ROUTER] \<and>
   getCompatibleNextNodeTypes adapterA [] = [CLASSICAL_HOST, CLASSICAL_ROUTER, QUANTUM_HOST]"
  using adapter_offers_missing_side [of adapterA scenarioBefore]
    adapter_offers_missing_side [of adapterA scenarioAfter]
    adapter_offers_missing_side [of adapterA "[link adapterA quantumQ]"]
    adapter_offers_missing_side [of adapterA "[]"]
  by (simp add: example_defs)

text \<open>
  C2, as the code has it. At degree 2 a Quantum Host, Quantum Adapter or Quantum Repeater
  is offered nothing, whatever its neighbours are; a Classical Host or Classical Router is
  still offered Classical Host, Classical Router and Quantum Adapter.
\<close>

theorem degree_two_offers:
  assumes "length (getNeighbors node cm) = 2"
    and "nodeType node \<in>
      {CLASSICAL_HOST, CLASSICAL_ROUTER, QUANTUM_HOST, QUANTUM_ADAPTER, QUANTUM_REPEATER}"
  shows "getCompatibleNextNodeTypes node cm =
    (if nodeType node \<in> {QUANTUM_HOST, QUANTUM_ADAPTER, QUANTUM_REPEATER} then []
     else [CLASSICAL_HOST, CLASSICAL_ROUTER, QUANTUM_ADAPTER])"
  using assms by (auto simp: getCompatibleNextNodeTypes_def)

theorem degree_two_offers_witness:
  "length (getNeighbors adapterA scenarioAfter) = 2 \<and>
   nodeType adapterA \<in>
     {CLASSICAL_HOST, CLASSICAL_ROUTER, QUANTUM_HOST, QUANTUM_ADAPTER, QUANTUM_REPEATER} \<and>
   getCompatibleNextNodeTypes adapterA scenarioAfter = []"
proof -
  have d: "length (getNeighbors adapterA scenarioAfter) = 2"
    by (simp add: example_defs)
  have t: "nodeType adapterA \<in>
     {CLASSICAL_HOST, CLASSICAL_ROUTER, QUANTUM_HOST, QUANTUM_ADAPTER, QUANTUM_REPEATER}"
    by (simp add: adapterA_def)
  from degree_two_offers [OF d t] d t show ?thesis
    by (simp add: adapterA_def)
qed

text \<open>
  C2 as stated fails: a Classical Host (a governed type) with two neighbours is not
  offered the empty list.
\<close>

theorem degree_two_classical_host_not_empty:
  "nodeType hostH = CLASSICAL_HOST \<and>
   length (getNeighbors hostH hostWithTwoLinks) = 2 \<and>
   getCompatibleNextNodeTypes hostH hostWithTwoLinks =
     [CLASSICAL_HOST, CLASSICAL_ROUTER, QUANTUM_ADAPTER] \<and>
   getCompatibleNextNodeTypes hostH hostWithTwoLinks \<noteq> []"
  by (simp add: example_defs getCompatibleNextNodeTypes_def)

text \<open>
  C3. A Classical Host or Classical Router is offered exactly Classical Host, Classical
  Router and Quantum Adapter, whatever its connections are: no degree limit applies.
\<close>

theorem classical_offers_all:
  "nodeType node = CLASSICAL_HOST \<or> nodeType node = CLASSICAL_ROUTER \<Longrightarrow>
   getCompatibleNextNodeTypes node cm = [CLASSICAL_HOST, CLASSICAL_ROUTER, QUANTUM_ADAPTER]"
  by (auto simp: getCompatibleNextNodeTypes_def Let_def)

theorem classical_offers_all_witness:
  "(nodeType routerR = CLASSICAL_HOST \<or> nodeType routerR = CLASSICAL_ROUTER) \<and>
   getCompatibleNextNodeTypes routerR hostWithTwoLinks =
     [CLASSICAL_HOST, CLASSICAL_ROUTER, QUANTUM_ADAPTER]"
  using classical_offers_all [of routerR hostWithTwoLinks]
  by (simp add: routerR_def)

text \<open>
  C4. A Quantum Host with fewer than two neighbours is offered exactly Quantum Host and
  Quantum Repeater when some neighbour is a Quantum Adapter and none is a Quantum Host or
  Repeater; exactly Quantum Adapter when some neighbour is a Quantum Host or Repeater and
  none is an Adapter; and Quantum Adapter, Quantum Host and Quantum Repeater otherwise.
  With two or more neighbours it is offered nothing.
\<close>

theorem quantum_host_offers_missing_side:
  assumes "nodeType node = QUANTUM_HOST"
  shows "getCompatibleNextNodeTypes node cm =
    (let ns = getNeighbors node cm;
         someAdapter = (\<exists>n\<in>set ns. nodeType n = QUANTUM_ADAPTER);
         someQuantumLink =
           (\<exists>n\<in>set ns. nodeType n = QUANTUM_HOST \<or> nodeType n = QUANTUM_REPEATER)
     in if length ns \<ge> 2 then []
        else if someAdapter \<and> \<not> someQuantumLink then [QUANTUM_HOST, QUANTUM_REPEATER]
        else if someQuantumLink \<and> \<not> someAdapter then [QUANTUM_ADAPTER]
        else [QUANTUM_ADAPTER, QUANTUM_HOST, QUANTUM_REPEATER])"
proof -
  have a: "QUANTUM_ADAPTER \<in> set (map nodeType ns) \<longleftrightarrow>
      (\<exists>n\<in>set ns. nodeType n = QUANTUM_ADAPTER)"
    for ns :: "SimulatorNode list"
    by force
  show ?thesis
    unfolding getCompatibleNextNodeTypes_def Let_def a neighborTypes_ex isQuantumLinkType_def
    using assms by simp
qed

theorem quantum_host_offers_missing_side_witness:
  "nodeType quantumQ = QUANTUM_HOST \<and>
   getCompatibleNextNodeTypes quantumQ scenarioAfter = [QUANTUM_HOST, QUANTUM_REPEATER] \<and>
   getCompatibleNextNodeTypes quantumQ scenarioBefore =
     [QUANTUM_ADAPTER, QUANTUM_HOST, QUANTUM_REPEATER]"
  using quantum_host_offers_missing_side [of quantumQ scenarioAfter]
    quantum_host_offers_missing_side [of quantumQ scenarioBefore]
  by (simp add: example_defs)

section \<open>Lab requirement checker: results\<close>

subsection \<open>The counting loop and the connection test, in closed form\<close>

lemma countOf_countNode:
  "countOf (countNode acc node) t = countOf acc t + (if nodeType node = t then 1 else 0)"
  by (simp add: countOf_def countNode_def)

lemma countOf_foldl:
  "countOf (foldl countNode acc ns) t = countOf acc t + count_list (map nodeType ns) t"
  by (induction ns arbitrary: acc) (simp_all add: countOf_countNode)

lemma countOf_nodeCounts: "countOf (nodeCounts ns) t = count_list (map nodeType ns) t"
  by (simp add: nodeCounts_def countOf_foldl) (simp add: countOf_def)

lemma truthyCount_countOf: "truthyCount (counts t) \<longleftrightarrow> 0 < countOf counts t"
  by (simp add: truthyCount_def countOf_def split: option.split)

lemma countOf_decrement:
  "truthyCount (counts r) \<Longrightarrow>
   countOf (counts(r \<mapsto> the (counts r) - 1)) t =
     (if t = r then countOf counts r - 1 else countOf counts t)"
  by (auto simp: countOf_def truthyCount_def split: option.splits)

lemma nodesEvery_iff:
  "fst (nodesEvery counts reqs) \<longleftrightarrow> (\<forall>t. count_list reqs t \<le> countOf counts t)"
proof (induction reqs arbitrary: counts)
  case Nil
  show ?case by simp
next
  case (Cons r rest)
  show ?case
  proof (cases "truthyCount (counts r)")
    case True
    then have pos: "0 < countOf counts r" by (simp add: truthyCount_countOf)
    have "fst (nodesEvery counts (r # rest)) \<longleftrightarrow>
        fst (nodesEvery (counts(r \<mapsto> the (counts r) - 1)) rest)"
      using True by simp
    also have "\<dots> \<longleftrightarrow>
        (\<forall>t. count_list rest t \<le> countOf (counts(r \<mapsto> the (counts r) - 1)) t)"
      by (rule Cons.IH)
    also have "\<dots> \<longleftrightarrow> (\<forall>t. count_list (r # rest) t \<le> countOf counts t)"
    proof (intro iff_allI)
      fix t
      have dec: "countOf (counts(r \<mapsto> the (counts r) - 1)) t =
          (if t = r then countOf counts r - 1 else countOf counts t)"
        using True countOf_decrement [of counts r t] by blast
      show "count_list rest t \<le> countOf (counts(r \<mapsto> the (counts r) - 1)) t \<longleftrightarrow>
          count_list (r # rest) t \<le> countOf counts t"
        unfolding dec using pos by auto
    qed
    finally show ?thesis .
  next
    case False
    then have "countOf counts r = 0" by (simp add: truthyCount_countOf)
    then have "\<not> count_list (r # rest) r \<le> countOf counts r" by simp
    then have "\<not> (\<forall>t. count_list (r # rest) t \<le> countOf counts t)" by blast
    with False show ?thesis by simp
  qed
qed

lemma nodesExist_iff:
  "nodesExist reqs allNodes \<longleftrightarrow>
     (\<forall>t. count_list reqs t \<le> count_list (map nodeType allNodes) t)"
  by (simp add: nodesExist_def nodesEvery_iff countOf_nodeCounts)

lemma count_list_mset: "count_list xs t = count (mset xs) t"
  by (induction xs) simp_all

lemma connectionMatches_iff:
  "connectionMatches A B c \<longleftrightarrow>
     (\<exists>t. metaData_to c = Some t \<and> {nodeType (metaData_from c), nodeType t} = {A, B})"
  by (cases "metaData_to c") (auto simp: connectionMatches_def doubleton_eq_iff)

lemma connectionsExist_iff:
  "connectionsExist reqs conns \<longleftrightarrow>
     (\<forall>(A, B)\<in>set reqs. \<exists>c\<in>set conns. \<exists>t. metaData_to c = Some t \<and>
        {nodeType (metaData_from c), nodeType t} = {A, B})"
  by (auto simp: connectionsExist_def list_all_iff list_ex_iff connectionMatches_iff)

lemma checkLabCompletion_found:
  assumes "find (\<lambda>l. exercise_id l = labId) EXERCISES = Some lab"
  shows "checkLabCompletion EXERCISES (Inr (Some net)) allNodes allConnections logs labId =
    Inr \<lparr>returned =
        nodesExist (nodes (requirements lab)) allNodes \<and>
        connectionsExist (connections (requirements lab)) allConnections \<and>
        messagesSent (messages (requirements lab)) logs,
      errorLog = [],
      labProgress = Some
        ((if nodesExist (nodes (requirements lab)) allNodes
          then length (nodes (requirements lab)) else 0) +
         (if connectionsExist (connections (requirements lab)) allConnections
          then length (connections (requirements lab)) else 0) +
         (if messagesRequired (messages (requirements lab)) \<and>
             messagesSent (messages (requirements lab)) logs then 1 else 0),
         length (nodes (requirements lab)) + length (connections (requirements lab)) +
         (if messagesRequired (messages (requirements lab)) then 1 else 0))\<rparr>"
  using assms by (simp add: checkLabCompletion_def Let_def)

lemma messagesSent_iff:
  "messagesSent m logs \<longleftrightarrow> (case m of None \<Rightarrow> True | Some k \<Rightarrow> k \<le> length logs)"
  by (auto simp: messagesSent_def split: option.split)

lemma required_and_sent:
  "messagesRequired m \<and> messagesSent m logs \<longleftrightarrow>
     messagesRequired m \<and> (case m of None \<Rightarrow> True | Some k \<Rightarrow> k \<le> length logs)"
  by (simp add: messagesSent_iff)

lemma nodesExist_Nil: "\<not> nodesExist reqs allNodes \<Longrightarrow> 0 < length reqs"
  by (cases reqs) (simp_all add: nodesExist_def)

lemma connectionsExist_Nil: "\<not> connectionsExist reqs conns \<Longrightarrow> 0 < length reqs"
  by (cases reqs) (simp_all add: connectionsExist_def)

lemma not_required_sent: "\<not> messagesRequired m \<Longrightarrow> messagesSent m logs"
  by (auto simp: messagesRequired_def messagesSent_def split: option.splits)

subsection \<open>Connection requirements\<close>

text \<open>
  C5. A required pair (A, B) is satisfied exactly when some connection has a defined
  \<^verbatim>\<open>to\<close> end and its two endpoint types are A and B, in either orientation. Every
  required pair is tested on its own against the whole connection list, nothing is
  consumed: one connection of types A and B satisfies the pair (A, B) however many times
  the requirement lists it.
\<close>

theorem connection_pairs_share_connections:
  "(connectionsExist [(A, B)] conns \<longleftrightarrow>
      (\<exists>c\<in>set conns. \<exists>t. metaData_to c = Some t \<and>
         {nodeType (metaData_from c), nodeType t} = {A, B})) \<and>
   (connectionsExist reqs conns \<longleftrightarrow> (\<forall>p\<in>set reqs. connectionsExist [p] conns)) \<and>
   ((\<exists>c\<in>set conns. \<exists>t. metaData_to c = Some t \<and>
         {nodeType (metaData_from c), nodeType t} = {A, B}) \<longrightarrow>
      connectionsExist (replicate n (A, B)) conns)"
proof (intro conjI impI)
  show one: "connectionsExist [(A, B)] conns \<longleftrightarrow>
      (\<exists>c\<in>set conns. \<exists>t. metaData_to c = Some t \<and>
         {nodeType (metaData_from c), nodeType t} = {A, B})"
    by (simp add: connectionsExist_iff)
  show "connectionsExist reqs conns \<longleftrightarrow> (\<forall>p\<in>set reqs. connectionsExist [p] conns)"
    by (simp add: connectionsExist_def list_all_iff)
  assume "\<exists>c\<in>set conns. \<exists>t. metaData_to c = Some t \<and>
         {nodeType (metaData_from c), nodeType t} = {A, B}"
  then have "connectionsExist [(A, B)] conns" by (simp only: one)
  then show "connectionsExist (replicate n (A, B)) conns"
    by (simp add: connectionsExist_def list_all_iff)
qed

theorem connection_pairs_share_connections_witness:
  "connectionsExist [(CLASSICAL_HOST, QUANTUM_ADAPTER)] scenarioBefore \<and>
   connectionsExist (replicate 3 (CLASSICAL_HOST, QUANTUM_ADAPTER)) scenarioBefore \<and>
   \<not> connectionsExist [(QUANTUM_HOST, QUANTUM_REPEATER)] scenarioBefore"
proof -
  have ex: "\<exists>c\<in>set scenarioBefore. \<exists>t. metaData_to c = Some t \<and>
      {nodeType (metaData_from c), nodeType t} = {CLASSICAL_HOST, QUANTUM_ADAPTER}"
    by (auto simp: example_defs)
  have no: "\<not> (\<exists>c\<in>set scenarioBefore. \<exists>t. metaData_to c = Some t \<and>
      {nodeType (metaData_from c), nodeType t} = {QUANTUM_HOST, QUANTUM_REPEATER})"
    by (auto simp: example_defs)
  from ex no
    connection_pairs_share_connections
      [of CLASSICAL_HOST QUANTUM_ADAPTER scenarioBefore "[]" 3]
    connection_pairs_share_connections
      [of QUANTUM_HOST QUANTUM_REPEATER scenarioBefore "[]" 0]
  show ?thesis by blast
qed

subsection \<open>Node requirements\<close>

text \<open>
  C6. The node requirement holds exactly when, for each node type, the requirement lists
  that type at most as many times as the topology has nodes of it: the required types,
  as a multiset, are contained in the multiset of the topology's node types. So any
  reordering of the requirement list gives the same outcome.
\<close>

theorem node_requirement_is_multiset_test:
  "(nodesExist reqs allNodes \<longleftrightarrow>
      (\<forall>t. count_list reqs t \<le> count_list (map nodeType allNodes) t)) \<and>
   (nodesExist reqs allNodes \<longleftrightarrow> mset reqs \<subseteq># mset (map nodeType allNodes)) \<and>
   (mset reqs' = mset reqs \<longrightarrow> nodesExist reqs' allNodes = nodesExist reqs allNodes)"
proof (intro conjI impI)
  show "nodesExist reqs allNodes \<longleftrightarrow>
      (\<forall>t. count_list reqs t \<le> count_list (map nodeType allNodes) t)"
    by (rule nodesExist_iff)
  show "nodesExist reqs allNodes \<longleftrightarrow> mset reqs \<subseteq># mset (map nodeType allNodes)"
    by (simp only: nodesExist_iff count_list_mset subseteq_mset_def)
  assume "mset reqs' = mset reqs"
  then show "nodesExist reqs' allNodes = nodesExist reqs allNodes"
    by (simp only: nodesExist_iff count_list_mset)
qed

theorem node_requirement_is_multiset_test_witness:
  "mset [QUANTUM_HOST, CLASSICAL_HOST, CLASSICAL_HOST] =
     mset [CLASSICAL_HOST, CLASSICAL_HOST, QUANTUM_HOST] \<and>
   nodesExist [QUANTUM_HOST, CLASSICAL_HOST, CLASSICAL_HOST] [hostH, hostH, quantumQ] =
     nodesExist [CLASSICAL_HOST, CLASSICAL_HOST, QUANTUM_HOST] [hostH, hostH, quantumQ] \<and>
   nodesExist [CLASSICAL_HOST, CLASSICAL_HOST] [hostH, hostH, quantumQ] \<and>
   \<not> nodesExist [CLASSICAL_HOST, CLASSICAL_HOST, CLASSICAL_HOST] [hostH, hostH, quantumQ]"
proof -
  have p: "mset [QUANTUM_HOST, CLASSICAL_HOST, CLASSICAL_HOST] =
     mset [CLASSICAL_HOST, CLASSICAL_HOST, QUANTUM_HOST]"
    by simp
  have two: "mset [CLASSICAL_HOST, CLASSICAL_HOST] \<subseteq>#
      mset (map nodeType [hostH, hostH, quantumQ])"
    by (simp add: example_defs)
  have three: "\<not> mset [CLASSICAL_HOST, CLASSICAL_HOST, CLASSICAL_HOST] \<subseteq>#
      mset (map nodeType [hostH, hostH, quantumQ])"
    by (simp add: example_defs subseteq_mset_def)
  from p two three
    node_requirement_is_multiset_test
      [of "[CLASSICAL_HOST, CLASSICAL_HOST, QUANTUM_HOST]" "[hostH, hostH, quantumQ]"
          "[QUANTUM_HOST, CLASSICAL_HOST, CLASSICAL_HOST]"]
    node_requirement_is_multiset_test
      [of "[CLASSICAL_HOST, CLASSICAL_HOST]" "[hostH, hostH, quantumQ]" "[]"]
    node_requirement_is_multiset_test
      [of "[CLASSICAL_HOST, CLASSICAL_HOST, CLASSICAL_HOST]" "[hostH, hostH, quantumQ]" "[]"]
  show ?thesis by blast
qed

subsection \<open>Progress and completion\<close>

text \<open>
  C7. For a lab that is found and a topology that is read, the checker returns and reports to
  \<^verbatim>\<open>updateLabProgress\<close> the total: the number of node items plus the number of
  connection items plus 1 if a messages minimum is required; and the fulfilled count: the
  number of node items if all of them matched and 0 otherwise, plus the number of
  connection items if all pairs matched and 0 otherwise, plus 1 if a messages minimum is
  required and met. A minimum is required when the \<^verbatim>\<open>messages\<close> field is present and
  not 0, which is what the code's test of \<^verbatim>\<open>requirements.messages\<close> asks.
\<close>

theorem progress_counts_all_or_nothing:
  assumes "find (\<lambda>l. exercise_id l = labId) EXERCISES = Some lab"
    and "exportToJSON = Inr (Some net)"
  shows "\<exists>res.
    checkLabCompletion EXERCISES exportToJSON allNodes allConnections logs labId = Inr res \<and>
    labProgress res =
    (let r = requirements lab;
         allNodesMatched =
           (\<forall>t. count_list (nodes r) t \<le> count_list (map nodeType allNodes) t);
         allPairsMatched =
           (\<forall>(A, B)\<in>set (connections r). \<exists>c\<in>set allConnections. \<exists>t.
              metaData_to c = Some t \<and> {nodeType (metaData_from c), nodeType t} = {A, B});
         minimumMet =
           (case messages r of None \<Rightarrow> True | Some k \<Rightarrow> k \<le> length logs)
     in Some
        ((if allNodesMatched then length (nodes r) else 0) +
         (if allPairsMatched then length (connections r) else 0) +
         (if messagesRequired (messages r) \<and> minimumMet then 1 else 0),
         length (nodes r) + length (connections r) +
         (if messagesRequired (messages r) then 1 else 0)))"
  unfolding assms(2) checkLabCompletion_found [OF assms(1)] Let_def
    nodesExist_iff connectionsExist_iff required_and_sent
  by simp

theorem progress_counts_all_or_nothing_witness:
  "find (\<lambda>l. exercise_id l = ''lab-1'') [labOne] = Some labOne \<and>
   (\<exists>res. checkLabCompletion [labOne] (Inr (Some ()) :: unit + unit option)
        [hostH, adapterA] scenarioBefore [(), (), ()] ''lab-1'' = Inr res \<and>
      labProgress res = Some (5, 5)) \<and>
   (\<exists>res. checkLabCompletion [labOne] (Inr (Some ()) :: unit + unit option)
        [hostH] scenarioBefore [(), ()] ''lab-1'' = Inr res \<and>
      labProgress res = Some (2, 5))"
proof -
  have f: "find (\<lambda>l. exercise_id l = ''lab-1'') [labOne] = Some labOne"
    by (simp add: labOne_def)
  have e: "(Inr (Some ()) :: unit + unit option) = Inr (Some ())" by simp
  have n2: "(\<forall>t. count_list (nodes (requirements labOne)) t \<le>
      count_list (map nodeType [hostH, adapterA]) t) = True"
    by (simp add: example_defs labOne_def)
  have n1: "(\<forall>t. count_list (nodes (requirements labOne)) t \<le>
      count_list (map nodeType [hostH]) t) = False"
    by (auto simp: example_defs labOne_def intro: exI [of _ QUANTUM_ADAPTER])
  have c: "(\<forall>(A, B)\<in>set (connections (requirements labOne)). \<exists>c\<in>set scenarioBefore. \<exists>t.
      metaData_to c = Some t \<and> {nodeType (metaData_from c), nodeType t} = {A, B}) = True"
    by (auto simp: example_defs labOne_def)
  have full: "\<exists>res. checkLabCompletion [labOne] (Inr (Some ()) :: unit + unit option)
        [hostH, adapterA] scenarioBefore [(), (), ()] ''lab-1'' = Inr res \<and>
      labProgress res = Some (5, 5)"
    using progress_counts_all_or_nothing
      [OF f e, of "[hostH, adapterA]" scenarioBefore "[(), (), ()]"]
    unfolding Let_def n2 c
    by (simp add: labOne_def messagesRequired_def eval_nat_numeral)
  have part: "\<exists>res. checkLabCompletion [labOne] (Inr (Some ()) :: unit + unit option)
        [hostH] scenarioBefore [(), ()] ''lab-1'' = Inr res \<and>
      labProgress res = Some (2, 5)"
    using progress_counts_all_or_nothing
      [OF f e, of "[hostH]" scenarioBefore "[(), ()]"]
    unfolding Let_def n1 c
    by (simp add: labOne_def messagesRequired_def eval_nat_numeral)
  from f full part show ?thesis by blast
qed

text \<open>
  C8. For a lab that is found and a topology that is read, the checker returns, and
  returns true exactly when every node item is matched (per type, no more required than present),
  every required pair is matched by some connection, and the event log is at least as
  long as the messages minimum, if the requirement has one. With a minimum of 3, a log of
  2 events fails and a log of 3 passes.
\<close>

theorem satisfied_iff_all_categories:
  assumes "find (\<lambda>l. exercise_id l = labId) EXERCISES = Some lab"
    and "exportToJSON = Inr (Some net)"
  shows "\<exists>res.
    checkLabCompletion EXERCISES exportToJSON allNodes allConnections logs labId = Inr res \<and>
    (returned res \<longleftrightarrow>
    (let r = requirements lab
     in (\<forall>t. count_list (nodes r) t \<le> count_list (map nodeType allNodes) t) \<and>
        (\<forall>(A, B)\<in>set (connections r). \<exists>c\<in>set allConnections. \<exists>t.
           metaData_to c = Some t \<and> {nodeType (metaData_from c), nodeType t} = {A, B}) \<and>
        (case messages r of None \<Rightarrow> True | Some k \<Rightarrow> k \<le> length logs)))"
  unfolding assms(2) checkLabCompletion_found [OF assms(1)] Let_def
    nodesExist_iff connectionsExist_iff messagesSent_iff
  by simp

theorem satisfied_iff_all_categories_witness:
  "find (\<lambda>l. exercise_id l = ''lab-1'') [labOne] = Some labOne \<and>
   messages (requirements labOne) = Some 3 \<and>
   (\<exists>res. checkLabCompletion [labOne] (Inr (Some ()) :: unit + unit option)
        [hostH, adapterA] scenarioBefore [(), (), ()] ''lab-1'' = Inr res \<and>
      returned res) \<and>
   (\<exists>res. checkLabCompletion [labOne] (Inr (Some ()) :: unit + unit option)
        [hostH, adapterA] scenarioBefore [(), ()] ''lab-1'' = Inr res \<and>
      \<not> returned res)"
proof -
  have f: "find (\<lambda>l. exercise_id l = ''lab-1'') [labOne] = Some labOne"
    by (simp add: labOne_def)
  have e: "(Inr (Some ()) :: unit + unit option) = Inr (Some ())" by simp
  have m: "messages (requirements labOne) = Some 3"
    by (simp add: labOne_def)
  have n: "(\<forall>t. count_list (nodes (requirements labOne)) t \<le>
      count_list (map nodeType [hostH, adapterA]) t) = True"
    by (simp add: example_defs labOne_def)
  have c: "(\<forall>(A, B)\<in>set (connections (requirements labOne)). \<exists>c\<in>set scenarioBefore. \<exists>t.
      metaData_to c = Some t \<and> {nodeType (metaData_from c), nodeType t} = {A, B}) = True"
    by (auto simp: example_defs labOne_def)
  have three: "\<exists>res. checkLabCompletion [labOne] (Inr (Some ()) :: unit + unit option)
        [hostH, adapterA] scenarioBefore [(), (), ()] ''lab-1'' = Inr res \<and>
      returned res"
    using satisfied_iff_all_categories
      [OF f e, of "[hostH, adapterA]" scenarioBefore "[(), (), ()]"]
    unfolding Let_def n c m by simp
  have two: "\<exists>res. checkLabCompletion [labOne] (Inr (Some ()) :: unit + unit option)
        [hostH, adapterA] scenarioBefore [(), ()] ''lab-1'' = Inr res \<and>
      \<not> returned res"
    using satisfied_iff_all_categories
      [OF f e, of "[hostH, adapterA]" scenarioBefore "[(), ()]"]
    unfolding Let_def n c m by simp
  from f m three two show ?thesis by blast
qed

text \<open>
  C10. For a lab that is found and a topology that is read, the checker returns, the
  reported fulfilled count never exceeds the reported total, and the checker returns true exactly when the two
  are equal.
\<close>

theorem progress_full_iff_satisfied:
  assumes "find (\<lambda>l. exercise_id l = labId) EXERCISES = Some lab"
    and "exportToJSON = Inr (Some net)"
  shows "\<exists>res fulfilled total.
    checkLabCompletion EXERCISES exportToJSON allNodes allConnections logs labId = Inr res \<and>
    labProgress res = Some (fulfilled, total) \<and>
    fulfilled \<le> total \<and>
    (returned res \<longleftrightarrow> fulfilled = total)"
  unfolding assms(2) checkLabCompletion_found [OF assms(1)]
  using nodesExist_Nil [of "nodes (requirements lab)" allNodes]
    connectionsExist_Nil [of "connections (requirements lab)" allConnections]
    not_required_sent [of "messages (requirements lab)" logs]
  by auto

theorem progress_full_iff_satisfied_witness:
  "find (\<lambda>l. exercise_id l = ''lab-1'') [labOne] = Some labOne \<and>
   (\<exists>res. checkLabCompletion [labOne] (Inr (Some ()) :: unit + unit option)
        [hostH, adapterA] scenarioBefore [(), ()] ''lab-1'' = Inr res \<and>
      labProgress res = Some (4, 5) \<and> \<not> returned res)"
proof -
  have f: "find (\<lambda>l. exercise_id l = ''lab-1'') [labOne] = Some labOne"
    by (simp add: labOne_def)
  have e: "(Inr (Some ()) :: unit + unit option) = Inr (Some ())" by simp
  from progress_full_iff_satisfied
    [OF f e, of "[hostH, adapterA]" scenarioBefore "[(), ()]"]
  obtain res fulfilled total where
    c: "checkLabCompletion [labOne] (Inr (Some ()) :: unit + unit option)
          [hostH, adapterA] scenarioBefore [(), ()] ''lab-1'' = Inr res"
    and p: "labProgress res = Some (fulfilled, total)"
    and r: "returned res \<longleftrightarrow> fulfilled = total"
    by blast
  have v: "\<exists>res'. checkLabCompletion [labOne] (Inr (Some ()) :: unit + unit option)
          [hostH, adapterA] scenarioBefore [(), ()] ''lab-1'' = Inr res' \<and>
      labProgress res' = Some (4, 5)"
    by (simp add: checkLabCompletion_def nodesExist_def nodeCounts_def countNode_def
        truthyCount_def connectionsExist_def connectionMatches_def messagesRequired_def
        messagesSent_def example_defs labOne_def)
  with c have v': "labProgress res = Some (4, 5)" by auto
  with p have "fulfilled = 4" and "total = 5" by simp_all
  with r have "\<not> returned res" by simp
  with f c v' show ?thesis by blast
qed

subsection \<open>Missing topology\<close>

text \<open>
  The checker can throw: what the call \<^verbatim>\<open>exportToJSON()\<close> throws is not caught.
\<close>

lemma export_exception_propagates:
  assumes "labId \<in> exercise_id ` set EXERCISES"
  shows "checkLabCompletion EXERCISES (Inl x) allNodes allConnections logs labId = Inl x"
proof -
  from assms have "find (\<lambda>l. exercise_id l = labId) EXERCISES \<noteq> None"
    by (auto simp: find_None_iff)
  then show ?thesis
    by (auto simp: checkLabCompletion_def)
qed

text \<open>
  C9. For every lab id of the exercise table (the ids the lab panel passes), if the call
  \<^verbatim>\<open>exportToJSON()\<close> returns null, the checker returns normally, with no exception
  leaving it: it returns false, it has logged the error \<^verbatim>\<open>No network found.\<close>, and it
  has reported no progress.
\<close>

theorem missing_topology_returns_false_and_logs:
  assumes "labId \<in> exercise_id ` set EXERCISES"
  shows "checkLabCompletion EXERCISES (Inr None) allNodes allConnections logs labId =
     Inr \<lparr>returned = False, errorLog = [''No network found.''], labProgress = None\<rparr>"
proof -
  from assms have "find (\<lambda>l. exercise_id l = labId) EXERCISES \<noteq> None"
    by (auto simp: find_None_iff)
  then show ?thesis
    by (auto simp: checkLabCompletion_def)
qed

theorem missing_topology_returns_false_and_logs_witness:
  "''lab-1'' \<in> exercise_id ` set [labOne] \<and>
   checkLabCompletion [labOne] (Inr None :: unit + unit option) [hostH, adapterA]
      scenarioBefore [(), ()] ''lab-1'' =
     Inr \<lparr>returned = False, errorLog = [''No network found.''], labProgress = None\<rparr>"
proof -
  have i: "''lab-1'' \<in> exercise_id ` set [labOne]"
    by (simp add: labOne_def)
  from i missing_topology_returns_false_and_logs
    [OF i, of "[hostH, adapterA]" scenarioBefore "[(), ()]"]
  show ?thesis by simp
qed

end
